theory Spec2Isabelle
  imports Main "HOL-Library.Word"
begin

section \<open>The Activity drawer of RegionX-Hub\<close>

text \<open>
  A shallow embedding of \<^verbatim>\<open>src/components/ActivityDrawer/index.tsx\<close>: the network
  configuration resolver, the derivation of the display address, the effect that fetches
  the extrinsics history, and the row helpers \<^verbatim>\<open>short\<close> and \<^verbatim>\<open>explorerUrl\<close>.
\<close>

subsection \<open>JavaScript strings\<close>

text \<open>
  A JavaScript string is a sequence of UTF-16 code units; \<^verbatim>\<open>length\<close>, \<^verbatim>\<open>slice\<close> and
  \<^verbatim>\<open>includes\<close> count code units. The ellipsis and the dash of \<^verbatim>\<open>short\<close> are one
  code unit each.
\<close>

type_synonym code_unit = "16 word"
type_synonym js_string = "code_unit list"

definition ascii :: "string \<Rightarrow> js_string" where
  "ascii s = map (\<lambda>c. of_nat (of_char c)) s"

definition ellipsis :: code_unit where
  "ellipsis = 0x2026"

definition em_dash :: code_unit where
  "em_dash = 0x2014"

text \<open>
  \<^verbatim>\<open>String.prototype.toLowerCase\<close>. The letters A to Z become a to z, and the Kelvin
  sign U+212A becomes k. No other code unit has an ASCII letter of the words looked for
  below (kusa, west, pase) in its lower-case form, so every other unit is kept as it is:
  that cannot change the result of a search for one of these words.
\<close>

definition lower_unit :: "code_unit \<Rightarrow> code_unit" where
  "lower_unit c =
     (if 0x41 \<le> c \<and> c \<le> 0x5A then c + 0x20
      else if c = 0x212A then 0x6B
      else c)"

definition toLowerCase :: "js_string \<Rightarrow> js_string" where
  "toLowerCase s = map lower_unit s"

text \<open>\<^verbatim>\<open>s.startsWith(p)\<close> and \<^verbatim>\<open>s.includes(p)\<close>: \<open>p\<close> occurs at the front, at any position.\<close>

fun startsWith :: "js_string \<Rightarrow> js_string \<Rightarrow> bool" where
  "startsWith s [] = True"
| "startsWith [] (p # ps) = False"
| "startsWith (c # cs) (p # ps) = (c = p \<and> startsWith cs ps)"

fun includes_str :: "js_string \<Rightarrow> js_string \<Rightarrow> bool" where
  "includes_str [] p = (p = [])"
| "includes_str (c # cs) p = (startsWith (c # cs) p \<or> includes_str cs p)"

text \<open>
  \<^verbatim>\<open>s.slice(start, end)\<close>: a negative index counts from the end, both indices are
  clamped to the string, and an \<^verbatim>\<open>end\<close> left out is the length.
\<close>

definition slice :: "js_string \<Rightarrow> int \<Rightarrow> int option \<Rightarrow> js_string" where
  "slice s start end_opt =
     (let len = int (length s);
          from = (if start < 0 then max (len + start) 0 else min start len);
          to = (case end_opt of
                  None \<Rightarrow> len
                | Some e \<Rightarrow> if e < 0 then max (len + e) 0 else min e len)
      in take (nat (to - from)) (drop (nat from) s))"

text \<open>Truthiness of an optional string: \<^verbatim>\<open>undefined\<close> and the empty string are falsy.\<close>

fun truthy :: "js_string option \<Rightarrow> bool" where
  "truthy None = False"
| "truthy (Some s) = (s \<noteq> [])"

subsection \<open>Network configuration resolver\<close>

text \<open>
  The value of the \<^verbatim>\<open>$network\<close> store: missing (\<^verbatim>\<open>null\<close> or \<^verbatim>\<open>undefined\<close>), a
  string, or an object \<open>NetObject id name\<close> whose \<^verbatim>\<open>id\<close> and \<^verbatim>\<open>name\<close> are each
  \<^verbatim>\<open>undefined\<close>, \<^verbatim>\<open>null\<close> or a string.
\<close>

datatype js_field = Undefined | Null | Text js_string

datatype network = NoNetwork | NetName js_string | NetObject js_field js_field

record cfg =
  api :: js_string
  site :: js_string
  ss58 :: nat
  label :: js_string

text \<open>\<^verbatim>\<open>a ?? b\<close> on a field: \<open>b\<close> only where \<open>a\<close> is \<^verbatim>\<open>undefined\<close> or \<^verbatim>\<open>null\<close>.\<close>

fun nullish_or :: "js_field \<Rightarrow> js_field \<Rightarrow> js_field" where
  "nullish_or (Text s) b = Text s"
| "nullish_or Undefined b = b"
| "nullish_or Null b = b"

fun normalizeNetworkName :: "network \<Rightarrow> js_string" where
  "normalizeNetworkName NoNetwork = ascii ''polkadot''"
| "normalizeNetworkName (NetName n) =
     (if n = [] then ascii ''polkadot'' else toLowerCase n)"
| "normalizeNetworkName (NetObject i nm) =
     (case nullish_or (nullish_or i nm) (Text (ascii ''polkadot'')) of
        Text s \<Rightarrow> toLowerCase s
      | _ \<Rightarrow> toLowerCase (ascii ''polkadot''))"

definition coretimeSubscanFor :: "network \<Rightarrow> cfg" where
  "coretimeSubscanFor network =
     (let n = normalizeNetworkName network in
      if includes_str n (ascii ''kusa'') then
        \<lparr>api = ascii ''https://coretime-kusama.api.subscan.io'',
         site = ascii ''https://coretime-kusama.subscan.io'',
         ss58 = 2,
         label = ascii ''Coretime (Kusama)''\<rparr>
      else if includes_str n (ascii ''west'') then
        \<lparr>api = ascii ''https://coretime-westend.api.subscan.io'',
         site = ascii ''https://coretime-westend.subscan.io'',
         ss58 = 42,
         label = ascii ''Coretime (Westend)''\<rparr>
      else if includes_str n (ascii ''pase'') then
        \<lparr>api = ascii ''https://coretime-paseo.api.subscan.io'',
         site = ascii ''https://coretime-paseo.subscan.io'',
         ss58 = 42,
         label = ascii ''Coretime (Paseo)''\<rparr>
      else
        \<lparr>api = ascii ''https://coretime-polkadot.api.subscan.io'',
         site = ascii ''https://coretime-polkadot.subscan.io'',
         ss58 = 0,
         label = ascii ''Coretime (Polkadot)''\<rparr>)"

subsection \<open>Display address\<close>

text \<open>
  A thrown JavaScript error is a value: a function that can throw returns
  \<open>js_error + 'a\<close>, with \<open>Inl\<close> the error.
\<close>

datatype js_error = Error js_string

text \<open>The selected account of the wallet; \<open>None\<close> is no account selected.\<close>

record account =
  address :: js_string

text \<open>
  The \<^verbatim>\<open>useMemo\<close> that computes \<^verbatim>\<open>address\<close> (lines 76 to 79). \<^verbatim>\<open>encodeAddress\<close>
  belongs to the library \<^verbatim>\<open>@polkadot/util-crypto\<close> and is a parameter: it returns the
  re-encoded address or throws. The call is not inside any \<^verbatim>\<open>try\<close>.
\<close>

definition address_memo ::
  "(js_string \<Rightarrow> nat \<Rightarrow> js_error + js_string) \<Rightarrow> account option \<Rightarrow> cfg
     \<Rightarrow> js_error + js_string option" where
  "address_memo encodeAddress selectedAccount c =
     (case selectedAccount of
        None \<Rightarrow> Inr None
      | Some acc \<Rightarrow>
          if address acc \<noteq> [] then
            (case encodeAddress (address acc) (ss58 c) of
               Inl e \<Rightarrow> Inl e
             | Inr a \<Rightarrow> Inr (Some a))
          else Inr None)"

subsection \<open>Row helpers\<close>

text \<open>
  \<^verbatim>\<open>short(s, n = 8)\<close>: \<open>None\<close> for \<open>n\<close> is the argument left out. \<^verbatim>\<open>!s\<close> holds for
  \<^verbatim>\<open>undefined\<close> and for the empty string.
\<close>

definition short :: "js_string option \<Rightarrow> int option \<Rightarrow> js_string" where
  "short s n_opt =
     (let n = (case n_opt of None \<Rightarrow> 8 | Some k \<Rightarrow> k) in
      case s of
        None \<Rightarrow> [em_dash]
      | Some t \<Rightarrow>
          if t = [] then [em_dash]
          else if int (length t) > n * 2 then slice t 0 (Some n) @ [ellipsis] @ slice t (- n) None
          else t)"

text \<open>
  An item of the response. Every field is optional; \<open>None\<close> is a field that is absent
  (or \<^verbatim>\<open>null\<close>). A block number is a natural number up to \<open>2 ^ 53\<close>, which a template
  literal prints as its decimal numeral.
\<close>

record SubscanExtrinsic =
  extrinsic_index :: "js_string option"
  block_num :: "nat option"
  hash :: "js_string option"
  module :: "js_string option"
  call :: "js_string option"
  success :: "bool option"
  fee :: "(js_string + nat) option"
  time :: "nat option"

fun decimal :: "nat \<Rightarrow> js_string" where
  "decimal n =
     (if n < 10 then [0x30 + of_nat n]
      else decimal (n div 10) @ [0x30 + of_nat (n mod 10)])"

text \<open>A string field inside a template literal.\<close>

fun template_str :: "js_string option \<Rightarrow> js_string" where
  "template_str None = ascii ''undefined''"
| "template_str (Some s) = s"

definition explorerUrl :: "cfg \<Rightarrow> SubscanExtrinsic \<Rightarrow> js_string" where
  "explorerUrl c ex =
     (if truthy (hash ex) then site c @ ascii ''/extrinsic/'' @ template_str (hash ex)
      else if truthy (extrinsic_index ex) then
        site c @ ascii ''/extrinsic/'' @ template_str (extrinsic_index ex)
      else case block_num ex of
        Some b \<Rightarrow> site c @ ascii ''/block/'' @ decimal b
      | None \<Rightarrow> site c)"

subsection \<open>History fetcher\<close>

text \<open>
  A value that \<^verbatim>\<open>res.json()\<close> returns. An object is the list of its properties;
  \<open>JNum\<close> stands for a number, which the component never looks into.
\<close>

datatype json =
    JNull
  | JBool bool
  | JNum int
  | JStr js_string
  | JArr "json list"
  | JObj "(js_string \<times> json) list"

text \<open>
  \<^verbatim>\<open>v?.k\<close> for the property names read here (\<^verbatim>\<open>data\<close>, \<^verbatim>\<open>list\<close>,
  \<^verbatim>\<open>extrinsics\<close>): \<open>None\<close> is \<^verbatim>\<open>undefined\<close>. Only an object has such a property;
  on \<^verbatim>\<open>undefined\<close> and \<^verbatim>\<open>null\<close> the chain stops, and a boolean, a number, a string
  and an array have no property of these names.
\<close>

fun opt_get :: "json option \<Rightarrow> js_string \<Rightarrow> json option" where
  "opt_get (Some (JObj kvs)) k = map_of kvs k"
| "opt_get v k = None"

fun isArray :: "json option \<Rightarrow> bool" where
  "isArray (Some (JArr xs)) = True"
| "isArray v = False"

text \<open>
  The argument of \<^verbatim>\<open>setItems\<close> on success (lines 120 to 122):
  \<^verbatim>\<open>Array.isArray(data?.data?.list) ? data.data.list : (data?.data?.extrinsics ?? [])\<close>.
\<close>

definition extract_items :: "json \<Rightarrow> json" where
  "extract_items data =
     (let d = opt_get (Some data) (ascii ''data'') in
      if isArray (opt_get d (ascii ''list'')) then
        (case opt_get d (ascii ''list'') of Some l \<Rightarrow> l | None \<Rightarrow> JArr [])
      else
        (case opt_get d (ascii ''extrinsics'') of
           None \<Rightarrow> JArr []
         | Some JNull \<Rightarrow> JArr []
         | Some e \<Rightarrow> e))"

text \<open>The request that \<^verbatim>\<open>fetch\<close> sends and what comes back.\<close>

record request =
  url :: js_string
  api_key :: js_string
  row :: nat
  page :: nat
  body_address :: js_string

record response =
  ok :: bool
  status :: nat
  body_text :: "js_error + js_string"
  body_json :: "js_error + json"

type_synonym fetch_fn = "request \<Rightarrow> js_error + response"

text \<open>
  The state of the component and a log of what the effect does, in order. \<^verbatim>\<open>items\<close> is
  declared as an array of extrinsics, but holds whatever \<^verbatim>\<open>setItems\<close> is given.
\<close>

datatype event =
    SetItems json
  | SetLoading bool
  | ConsoleWarn
  | ConsoleError
  | Fetch request

record drawer =
  items :: json
  loading :: bool
  log :: "event list"

definition setItems :: "json \<Rightarrow> drawer \<Rightarrow> drawer" where
  "setItems v st = st\<lparr>items := v, log := log st @ [SetItems v]\<rparr>"

definition setLoading :: "bool \<Rightarrow> drawer \<Rightarrow> drawer" where
  "setLoading b st = st\<lparr>loading := b, log := log st @ [SetLoading b]\<rparr>"

definition emit :: "event \<Rightarrow> drawer \<Rightarrow> drawer" where
  "emit e st = st\<lparr>log := log st @ [e]\<rparr>"

text \<open>
  The request of lines 106 to 113, and the body of \<^verbatim>\<open>try\<close> (lines 102 to 123): the
  error thrown, if any, and the state reached. \<^verbatim>\<open>fetch\<close>, \<^verbatim>\<open>res.text()\<close> and
  \<^verbatim>\<open>res.json()\<close> can throw.
\<close>

definition history_request :: "cfg \<Rightarrow> js_string \<Rightarrow> js_string \<Rightarrow> request" where
  "history_request c SUBSCAN_API_KEY addr =
     \<lparr>url = api c @ ascii ''/api/v2/scan/extrinsics'',
      api_key = SUBSCAN_API_KEY, row = 10, page = 0, body_address = addr\<rparr>"

definition try_body :: "cfg \<Rightarrow> js_string \<Rightarrow> js_string \<Rightarrow> fetch_fn \<Rightarrow> drawer
    \<Rightarrow> js_error option \<times> drawer" where
  "try_body c SUBSCAN_API_KEY addr fetch st =
     (let st1 = (if SUBSCAN_API_KEY = [] then emit ConsoleWarn st else st);
          req = history_request c SUBSCAN_API_KEY addr;
          st2 = emit (Fetch req) st1
      in case fetch req of
           Inl e \<Rightarrow> (Some e, st2)
         | Inr res \<Rightarrow>
             if \<not> ok res then
               (case body_text res of
                  Inl e \<Rightarrow> (Some e, st2)
                | Inr t \<Rightarrow> (None, setItems (JArr []) (emit ConsoleError st2)))
             else
               (case body_json res of
                  Inl e \<Rightarrow> (Some e, st2)
                | Inr data \<Rightarrow> (None, setItems (extract_items data) st2)))"

text \<open>
  The asynchronous function of the effect (lines 99 to 130), run to its end:
  \<^verbatim>\<open>try\<close>, then \<^verbatim>\<open>catch\<close> on an error, then \<^verbatim>\<open>finally\<close>.
\<close>

definition fetch_routine :: "cfg \<Rightarrow> js_string \<Rightarrow> js_string \<Rightarrow> fetch_fn \<Rightarrow> drawer \<Rightarrow> drawer" where
  "fetch_routine c SUBSCAN_API_KEY addr fetch st =
     (let (thrown, st1) = try_body c SUBSCAN_API_KEY addr fetch (setLoading True st);
          st2 = (case thrown of
                   Some e \<Rightarrow> setItems (JArr []) (emit ConsoleError st1)
                 | None \<Rightarrow> st1)
      in setLoading False st2)"

text \<open>The second \<^verbatim>\<open>useEffect\<close> (lines 92 to 131), with the fetch it starts run to its end.\<close>

definition fetch_effect ::
  "bool \<Rightarrow> js_string option \<Rightarrow> cfg \<Rightarrow> js_string \<Rightarrow> fetch_fn \<Rightarrow> drawer \<Rightarrow> drawer" where
  "fetch_effect is_open addr c SUBSCAN_API_KEY fetch st =
     (if \<not> is_open then st
      else case addr of
        None \<Rightarrow> setLoading False (setItems (JArr []) st)
      | Some a \<Rightarrow>
          if a = [] then setLoading False (setItems (JArr []) st)
          else fetch_routine c SUBSCAN_API_KEY a fetch st)"

subsection \<open>Notions of the specification\<close>

text \<open>
  The identifier of a network value: the string itself, or the \<^verbatim>\<open>id\<close> of an object, or
  else its \<^verbatim>\<open>name\<close>; none when the value is missing.
\<close>

fun network_ident :: "network \<Rightarrow> js_string option" where
  "network_ident NoNetwork = None"
| "network_ident (NetName s) = Some s"
| "network_ident (NetObject (Text s) nm) = Some s"
| "network_ident (NetObject i (Text s)) = Some s"
| "network_ident (NetObject i nm) = None"

text \<open>
  The identifier contains \<open>w\<close>, case-insensitively, at any position: some run of its code
  units has \<open>w\<close> as its lower-case form.
\<close>

definition mentions :: "js_string \<Rightarrow> network \<Rightarrow> bool" where
  "mentions w n \<longleftrightarrow>
     (\<exists>s ps v ss. network_ident n = Some s \<and> s = ps @ v @ ss \<and> toLowerCase v = w)"

text \<open>The four configurations.\<close>

definition kusama_cfg :: cfg where
  "kusama_cfg =
     \<lparr>api = ascii ''https://coretime-kusama.api.subscan.io'',
      site = ascii ''https://coretime-kusama.subscan.io'',
      ss58 = 2,
      label = ascii ''Coretime (Kusama)''\<rparr>"

definition westend_cfg :: cfg where
  "westend_cfg =
     \<lparr>api = ascii ''https://coretime-westend.api.subscan.io'',
      site = ascii ''https://coretime-westend.subscan.io'',
      ss58 = 42,
      label = ascii ''Coretime (Westend)''\<rparr>"

definition paseo_cfg :: cfg where
  "paseo_cfg =
     \<lparr>api = ascii ''https://coretime-paseo.api.subscan.io'',
      site = ascii ''https://coretime-paseo.subscan.io'',
      ss58 = 42,
      label = ascii ''Coretime (Paseo)''\<rparr>"

definition polkadot_cfg :: cfg where
  "polkadot_cfg =
     \<lparr>api = ascii ''https://coretime-polkadot.api.subscan.io'',
      site = ascii ''https://coretime-polkadot.subscan.io'',
      ss58 = 0,
      label = ascii ''Coretime (Polkadot)''\<rparr>"

text \<open>The field \<open>k\<close> of the \<^verbatim>\<open>data\<close> object of a response body.\<close>

definition data_field :: "json \<Rightarrow> string \<Rightarrow> json option" where
  "data_field body k = opt_get (opt_get (Some body) (ascii ''data'')) (ascii k)"

text \<open>The network calls in a log.\<close>

fun is_fetch :: "event \<Rightarrow> bool" where
  "is_fetch (Fetch req) = True"
| "is_fetch e = False"

subsection \<open>Inputs of the examples\<close>

text \<open>
  An encoder that rejects an address holding a space and returns any other address as it
  is; a server that answers every request with the same response, and one that cannot be
  reached; a response with status 200 and a JSON body, and one with status 500; a fresh
  component.
\<close>

definition example_encoder :: "js_string \<Rightarrow> nat \<Rightarrow> js_error + js_string" where
  "example_encoder a v =
     (if 0x20 \<in> set a then Inl (Error (ascii ''Invalid base58 character'')) else Inr a)"

definition reply :: "response \<Rightarrow> fetch_fn" where
  "reply res req = Inr res"

definition unreachable :: fetch_fn where
  "unreachable req = Inl (Error (ascii ''Failed to fetch''))"

definition ok_response :: "json \<Rightarrow> response" where
  "ok_response body = \<lparr>ok = True, status = 200, body_text = Inr [], body_json = Inr body\<rparr>"

definition error_response :: response where
  "error_response =
     \<lparr>ok = False, status = 500, body_text = Inr (ascii ''Internal Server Error''),
      body_json = Inl (Error (ascii ''Unexpected token''))\<rparr>"

definition data_body :: "string \<Rightarrow> json \<Rightarrow> json" where
  "data_body k v = JObj [(ascii ''data'', JObj [(ascii k, v)])]"

definition fresh :: drawer where
  "fresh = \<lparr>items = JArr [], loading = False, log = []\<rparr>"

section \<open>Properties\<close>

subsection \<open>Strings\<close>

lemma startsWith_iff: "startsWith s p \<longleftrightarrow> (\<exists>ss. s = p @ ss)"
  by (induction s p rule: startsWith.induct) auto

lemma includes_str_iff: "includes_str s p \<longleftrightarrow> (\<exists>ps ss. s = ps @ p @ ss)"
proof (induction s)
  case Nil
  then show ?case by auto
next
  case (Cons c cs)
  show ?case
  proof
    assume "includes_str (c # cs) p"
    then consider "startsWith (c # cs) p" | "includes_str cs p" by auto
    then show "\<exists>ps ss. c # cs = ps @ p @ ss"
    proof cases
      case 1
      then obtain ss where "c # cs = p @ ss" by (auto simp: startsWith_iff)
      then have "c # cs = [] @ p @ ss" by simp
      then show ?thesis by blast
    next
      case 2
      then obtain ps ss where "cs = ps @ p @ ss" using Cons.IH by blast
      then have "c # cs = (c # ps) @ p @ ss" by simp
      then show ?thesis by blast
    qed
  next
    assume "\<exists>ps ss. c # cs = ps @ p @ ss"
    then obtain ps ss where eq: "c # cs = ps @ p @ ss" by blast
    show "includes_str (c # cs) p"
    proof (cases ps)
      case Nil
      with eq have "startsWith (c # cs) p" by (auto simp: startsWith_iff)
      then show ?thesis by simp
    next
      case (Cons q qs)
      with eq have "cs = qs @ p @ ss" by simp
      then have "includes_str cs p" using Cons.IH by blast
      then show ?thesis by simp
    qed
  qed
qed

lemma includes_toLowerCase:
  "includes_str (toLowerCase s) w \<longleftrightarrow> (\<exists>ps v ss. s = ps @ v @ ss \<and> toLowerCase v = w)"
proof
  assume "includes_str (toLowerCase s) w"
  then obtain ps ss where "map lower_unit s = ps @ w @ ss"
    by (auto simp: includes_str_iff toLowerCase_def)
  then obtain a r where a: "s = a @ r" "map lower_unit r = w @ ss"
    by (metis map_eq_append_conv)
  then obtain b c where "r = b @ c" "map lower_unit b = w"
    by (metis map_eq_append_conv)
  with a have "s = a @ b @ c" "map lower_unit b = w" by simp_all
  then show "\<exists>ps v ss. s = ps @ v @ ss \<and> toLowerCase v = w"
    by (auto simp: toLowerCase_def)
next
  assume "\<exists>ps v ss. s = ps @ v @ ss \<and> toLowerCase v = w"
  then obtain ps v ss where "s = ps @ v @ ss" "toLowerCase v = w" by blast
  then have "toLowerCase s = toLowerCase ps @ w @ toLowerCase ss"
    by (simp add: toLowerCase_def)
  then show "includes_str (toLowerCase s) w"
    unfolding includes_str_iff by blast
qed

lemma slice_front: "0 \<le> n \<Longrightarrow> slice t 0 (Some n) = take (nat n) t"
  by (simp add: slice_def Let_def min_def)

lemma slice_back: "0 < n \<Longrightarrow> slice t (- n) None = drop (length t - nat n) t"
  by (auto simp: slice_def Let_def max_def nat_diff_distrib')

subsection \<open>Network configuration resolver\<close>

lemma polkadot_lower: "toLowerCase (ascii ''polkadot'') = ascii ''polkadot''"
  by (simp add: toLowerCase_def lower_unit_def ascii_def)

lemma polkadot_includes:
  "\<not> includes_str (ascii ''polkadot'') (ascii ''kusa'')"
  "\<not> includes_str (ascii ''polkadot'') (ascii ''west'')"
  "\<not> includes_str (ascii ''polkadot'') (ascii ''pase'')"
  by (simp_all add: ascii_def)

lemma mentions_NetName_Nil: "w \<noteq> [] \<Longrightarrow> \<not> mentions w (NetName [])"
  by (auto simp: mentions_def toLowerCase_def)

lemma mentions_no_ident: "network_ident n = None \<Longrightarrow> \<not> mentions w n"
  by (simp add: mentions_def)

lemma mentions_includes:
  "mentions w n \<longleftrightarrow>
     (case network_ident n of None \<Rightarrow> False | Some s \<Rightarrow> includes_str (toLowerCase s) w)"
  by (auto simp: mentions_def includes_toLowerCase split: option.splits)

lemma normalize_ident:
  "network_ident n = Some s \<Longrightarrow> n \<noteq> NetName [] \<Longrightarrow> normalizeNetworkName n = toLowerCase s"
  by (induction n rule: network_ident.induct) auto

lemma normalize_no_ident:
  "network_ident n = None \<Longrightarrow> normalizeNetworkName n = ascii ''polkadot''"
  by (induction n rule: network_ident.induct) (auto simp: polkadot_lower)

lemma includes_normalize:
  assumes "w \<in> {ascii ''kusa'', ascii ''west'', ascii ''pase''}"
  shows "includes_str (normalizeNetworkName n) w \<longleftrightarrow> mentions w n"
proof (cases "network_ident n")
  case None
  with assms show ?thesis
    using polkadot_includes by (auto simp: normalize_no_ident mentions_no_ident)
next
  case (Some s)
  show ?thesis
  proof (cases "n = NetName []")
    case True
    have "w \<noteq> []" using assms by (auto simp: ascii_def)
    with True assms show ?thesis
      using polkadot_includes by (auto simp: mentions_NetName_Nil)
  next
    case False
    with Some have "normalizeNetworkName n = toLowerCase s" by (rule normalize_ident)
    with Some show ?thesis by (simp add: mentions_includes)
  qed
qed

text \<open>
  C3. The resolver is a total function of the network value. It returns the Kusama
  configuration when the identifier contains "kusa" (in any case, at any position), else
  the Westend configuration when it contains "west", else the Paseo configuration when it
  contains "pase", else the Polkadot configuration; a missing value has no identifier and
  gets the Polkadot configuration.
\<close>

theorem coretimeSubscanFor_priority:
  "coretimeSubscanFor n =
     (if mentions (ascii ''kusa'') n then kusama_cfg
      else if mentions (ascii ''west'') n then westend_cfg
      else if mentions (ascii ''pase'') n then paseo_cfg
      else polkadot_cfg)"
  by (simp add: coretimeSubscanFor_def includes_normalize
      kusama_cfg_def westend_cfg_def paseo_cfg_def polkadot_cfg_def)

theorem coretimeSubscanFor_priority_witness:
  "coretimeSubscanFor (NetName (ascii ''West-KUSAMA'')) = kusama_cfg \<and>
   coretimeSubscanFor (NetObject Undefined (Text (ascii ''Paseo/WestEnd''))) = westend_cfg \<and>
   coretimeSubscanFor (NetObject (Text (ascii ''PASEO'')) Null) = paseo_cfg \<and>
   coretimeSubscanFor (NetName (ascii ''rococo'')) = polkadot_cfg \<and>
   coretimeSubscanFor NoNetwork = polkadot_cfg"
proof -
  have low:
    "toLowerCase (ascii ''West-KUSAMA'') = ascii ''west-kusama''"
    "toLowerCase (ascii ''Paseo/WestEnd'') = ascii ''paseo/westend''"
    "toLowerCase (ascii ''PASEO'') = ascii ''paseo''"
    "toLowerCase (ascii ''rococo'') = ascii ''rococo''"
    by (simp_all add: toLowerCase_def lower_unit_def ascii_def)
  have m:
    "mentions (ascii ''kusa'') (NetName (ascii ''West-KUSAMA''))"
    "\<not> mentions (ascii ''kusa'') (NetObject Undefined (Text (ascii ''Paseo/WestEnd'')))"
    "mentions (ascii ''west'') (NetObject Undefined (Text (ascii ''Paseo/WestEnd'')))"
    "\<not> mentions (ascii ''kusa'') (NetObject (Text (ascii ''PASEO'')) Null)"
    "\<not> mentions (ascii ''west'') (NetObject (Text (ascii ''PASEO'')) Null)"
    "mentions (ascii ''pase'') (NetObject (Text (ascii ''PASEO'')) Null)"
    "\<not> mentions (ascii ''kusa'') (NetName (ascii ''rococo''))"
    "\<not> mentions (ascii ''west'') (NetName (ascii ''rococo''))"
    "\<not> mentions (ascii ''pase'') (NetName (ascii ''rococo''))"
    by (simp_all add: mentions_includes low) (simp_all add: ascii_def)
  show ?thesis
    using coretimeSubscanFor_priority [of "NetName (ascii ''West-KUSAMA'')"]
      coretimeSubscanFor_priority [of "NetObject Undefined (Text (ascii ''Paseo/WestEnd''))"]
      coretimeSubscanFor_priority [of "NetObject (Text (ascii ''PASEO'')) Null"]
      coretimeSubscanFor_priority [of "NetName (ascii ''rococo'')"]
      coretimeSubscanFor_priority [of NoNetwork]
    by (simp add: m mentions_no_ident)
qed

subsection \<open>Display address\<close>

text \<open>
  C1, as the code has it. The derivation gives back exactly what the encoding step
  produces for a selected account with a non-empty raw address: the re-encoded address
  when the step succeeds, and its error, thrown on to the caller, when the step fails.
  "No address" is the result only when no account is selected or the raw address is
  empty, never after a failure of the encoding.
\<close>

theorem address_memo_propagates:
  "(address acc \<noteq> [] \<and> encodeAddress (address acc) (ss58 c) = Inl e
      \<longrightarrow> address_memo encodeAddress (Some acc) c = Inl e) \<and>
   (address acc \<noteq> [] \<and> encodeAddress (address acc) (ss58 c) = Inr a
      \<longrightarrow> address_memo encodeAddress (Some acc) c = Inr (Some a)) \<and>
   (address_memo encodeAddress selectedAccount c = Inr None
      \<longleftrightarrow> selectedAccount = None \<or> map_option address selectedAccount = Some [])"
  by (auto simp: address_memo_def split: option.splits sum.splits)

theorem address_memo_propagates_witness:
  "address_memo example_encoder (Some \<lparr>address = ascii ''not an address''\<rparr>) polkadot_cfg
     = Inl (Error (ascii ''Invalid base58 character'')) \<and>
   address_memo example_encoder (Some \<lparr>address = ascii ''5Grw''\<rparr>) polkadot_cfg
     = Inr (Some (ascii ''5Grw'')) \<and>
   address_memo example_encoder None polkadot_cfg = Inr None"
proof -
  have f: "example_encoder (ascii ''not an address'') (ss58 polkadot_cfg)
             = Inl (Error (ascii ''Invalid base58 character''))"
    by (simp add: example_encoder_def ascii_def)
  have g: "example_encoder (ascii ''5Grw'') (ss58 polkadot_cfg) = Inr (ascii ''5Grw'')"
    by (simp add: example_encoder_def ascii_def)
  have ne: "ascii ''not an address'' \<noteq> []" "ascii ''5Grw'' \<noteq> []"
    by (simp_all add: ascii_def)
  show ?thesis
    using address_memo_propagates [of "\<lparr>address = ascii ''not an address''\<rparr>" example_encoder
        polkadot_cfg "Error (ascii ''Invalid base58 character'')" "[]" None]
      address_memo_propagates [of "\<lparr>address = ascii ''5Grw''\<rparr>" example_encoder
        polkadot_cfg "Error []" "ascii ''5Grw''" None]
    by (simp add: f g ne)
qed

text \<open>
  C1 as stated fails: the encoder rejects the raw address of the selected account, and
  the derivation ends with that error instead of "no address".
\<close>

theorem address_memo_counterexample:
  "address_memo example_encoder (Some \<lparr>address = ascii ''not an address''\<rparr>) polkadot_cfg
     \<noteq> Inr None"
  by (simp add: address_memo_def example_encoder_def ascii_def)

subsection \<open>Shortening a string\<close>

lemma short_long:
  assumes "1 \<le> n" and "2 * n < int (length t)"
  shows "short (Some t) (Some n) = take (nat n) t @ [ellipsis] @ drop (length t - nat n) t"
proof -
  from assms have "t \<noteq> []" by auto
  with assms show ?thesis
    by (simp add: short_def slice_front slice_back mult.commute)
qed

lemma short_small:
  "t \<noteq> [] \<Longrightarrow> int (length t) \<le> 2 * n \<Longrightarrow> short (Some t) (Some n) = t"
  by (simp add: short_def mult.commute)

lemma short_default: "short s None = short s (Some 8)"
  by (simp add: short_def)

lemma length_short_long:
  assumes "1 \<le> n" and "2 * n < int (length t)"
  shows "int (length (short (Some t) (Some n))) = 2 * n + 1"
proof -
  from assms have "nat n \<le> length t" by linarith
  with assms show ?thesis by (simp add: short_long)
qed

text \<open>
  C4, as the code has it, for the default width 8 (left out or given): a string longer
  than 16 code units becomes its first 8, the ellipsis and its last 8; a non-empty string
  of at most 16 is returned unchanged; \<^verbatim>\<open>undefined\<close> and the empty string give the dash.
\<close>

theorem short_default_width:
  "(16 < length t \<longrightarrow> short (Some t) None = take 8 t @ [ellipsis] @ drop (length t - 8) t) \<and>
   (t \<noteq> [] \<and> length t \<le> 16 \<longrightarrow> short (Some t) None = t) \<and>
   short None None = [em_dash] \<and>
   short (Some []) None = [em_dash] \<and>
   short s (Some 8) = short s None"
proof -
  have "short (Some t) None = take 8 t @ [ellipsis] @ drop (length t - 8) t" if "16 < length t"
    using that short_long [of 8 t] by (simp add: short_default)
  moreover have "short (Some t) None = t" if "t \<noteq> []" "length t \<le> 16"
    using that short_small [of t 8] by (simp add: short_default)
  moreover have "short None None = [em_dash]" "short (Some []) None = [em_dash]"
    by (simp_all add: short_def)
  ultimately show ?thesis by (simp add: short_default)
qed

theorem short_default_width_witness:
  "short (Some (ascii ''0x1234567890abcdef1234'')) None
     = ascii ''0x123456'' @ [ellipsis] @ ascii ''cdef1234'' \<and>
   short (Some (ascii ''0xabc'')) None = ascii ''0xabc''"
proof -
  have "16 < length (ascii ''0x1234567890abcdef1234'')"
    "ascii ''0xabc'' \<noteq> []" "length (ascii ''0xabc'') \<le> 16"
    by (simp_all add: ascii_def)
  then show ?thesis
    using short_default_width [of "ascii ''0x1234567890abcdef1234''"]
      short_default_width [of "ascii ''0xabc''"]
    by (simp add: ascii_def)
qed

text \<open>
  C4 as stated fails: the empty string is defined and no longer than 16, and it is not
  returned unchanged.
\<close>

theorem short_empty_counterexample: "short (Some []) None \<noteq> []"
  by (simp add: short_def)

text \<open>
  C9. For every width \<open>n\<close> of at least 1, shortening is idempotent, on \<^verbatim>\<open>undefined\<close> as
  well as on every string; and a string longer than \<open>2 n\<close> is shortened to \<open>2 n + 1\<close>
  code units.
\<close>

theorem short_idempotent:
  "1 \<le> n \<Longrightarrow>
     short (Some (short s (Some n))) (Some n) = short s (Some n) \<and>
     (2 * n < int (length t) \<longrightarrow> int (length (short (Some t) (Some n))) = 2 * n + 1)"
proof -
  assume n: "1 \<le> n"
  have dash: "short (Some [em_dash]) (Some n) = [em_dash]"
    using n by (simp add: short_small)
  have "short (Some (short s (Some n))) (Some n) = short s (Some n)"
  proof (cases s)
    case None
    then have "short s (Some n) = [em_dash]" by (simp add: short_def)
    with dash show ?thesis by simp
  next
    case (Some u)
    show ?thesis
    proof (cases "u = []")
      case True
      with Some have "short s (Some n) = [em_dash]" by (simp add: short_def)
      with dash show ?thesis by simp
    next
      case False
      show ?thesis
      proof (cases "2 * n < int (length u)")
        case False
        with \<open>u \<noteq> []\<close> Some show ?thesis by (simp add: short_small)
      next
        case True
        define r where "r = take (nat n) u @ [ellipsis] @ drop (length u - nat n) u"
        from True n have le: "nat n \<le> length u" by linarith
        have sr: "short (Some u) (Some n) = r"
          using n True by (simp add: short_long r_def)
        from le n have len: "length r = 2 * nat n + 1" by (simp add: r_def)
        with n have long: "2 * n < int (length r)" by linarith
        from le have "take (nat n) r = take (nat n) u" by (simp add: r_def)
        moreover from le len have "drop (length r - nat n) r = drop (length u - nat n) u"
          by (simp add: r_def)
        ultimately have "short (Some r) (Some n) = r"
          using short_long [OF n long] by (simp add: r_def)
        with sr Some show ?thesis by simp
      qed
    qed
  qed
  then show ?thesis using n by (simp add: length_short_long)
qed

theorem short_idempotent_witness:
  "(1::int) \<le> 3 \<and>
   short (Some (short (Some (ascii ''0x1234567890'')) (Some 3))) (Some 3)
     = short (Some (ascii ''0x1234567890'')) (Some 3) \<and>
   short (Some (ascii ''0x1234567890'')) (Some 3) = ascii ''0x1'' @ [ellipsis] @ ascii ''890'' \<and>
   int (length (short (Some (ascii ''0x1234567890'')) (Some 3))) = 2 * 3 + 1"
proof -
  have h: "(1::int) \<le> 3" by simp
  have l: "2 * 3 < int (length (ascii ''0x1234567890''))" by (simp add: ascii_def)
  have v: "short (Some (ascii ''0x1234567890'')) (Some 3) = ascii ''0x1'' @ [ellipsis] @ ascii ''890''"
    by (simp add: short_def slice_def ascii_def)
  show ?thesis
    using short_idempotent [OF h, of "Some (ascii ''0x1234567890'')" "ascii ''0x1234567890''"] l v
    by simp
qed

subsection \<open>Explorer link\<close>

text \<open>
  C8, as the code has it. The link is built from the hash when the hash is a non-empty
  string; else from the extrinsic index when that is a non-empty string; else from the
  block number when there is one, whatever its value; else it is the site itself.
\<close>

theorem explorerUrl_priority:
  "(hash ex = Some h \<and> h \<noteq> []
      \<longrightarrow> explorerUrl c ex = site c @ ascii ''/extrinsic/'' @ h) \<and>
   (\<not> truthy (hash ex) \<and> extrinsic_index ex = Some i \<and> i \<noteq> []
      \<longrightarrow> explorerUrl c ex = site c @ ascii ''/extrinsic/'' @ i) \<and>
   (\<not> truthy (hash ex) \<and> \<not> truthy (extrinsic_index ex) \<and> block_num ex = Some b
      \<longrightarrow> explorerUrl c ex = site c @ ascii ''/block/'' @ decimal b) \<and>
   (\<not> truthy (hash ex) \<and> \<not> truthy (extrinsic_index ex) \<and> block_num ex = None
      \<longrightarrow> explorerUrl c ex = site c)"
  by (simp add: explorerUrl_def)

theorem explorerUrl_priority_witness:
  "explorerUrl polkadot_cfg
     \<lparr>extrinsic_index = Some (ascii ''7-2''), block_num = Some 7, hash = Some (ascii ''0xabc''),
      module = None, call = None, success = None, fee = None, time = None\<rparr>
     = site polkadot_cfg @ ascii ''/extrinsic/0xabc'' \<and>
   explorerUrl polkadot_cfg
     \<lparr>extrinsic_index = Some (ascii ''7-2''), block_num = Some 7, hash = None,
      module = None, call = None, success = None, fee = None, time = None\<rparr>
     = site polkadot_cfg @ ascii ''/extrinsic/7-2'' \<and>
   explorerUrl polkadot_cfg
     \<lparr>extrinsic_index = None, block_num = Some 7, hash = None,
      module = None, call = None, success = None, fee = None, time = None\<rparr>
     = site polkadot_cfg @ ascii ''/block/7'' \<and>
   explorerUrl polkadot_cfg
     \<lparr>extrinsic_index = None, block_num = None, hash = None,
      module = None, call = None, success = None, fee = None, time = None\<rparr>
     = site polkadot_cfg"
proof -
  have ne: "ascii ''0xabc'' \<noteq> []" "ascii ''7-2'' \<noteq> []"
    by (simp_all add: ascii_def)
  have d: "decimal 7 = ascii ''7''"
    by (simp add: ascii_def)
  show ?thesis
    using explorerUrl_priority [of
        "\<lparr>extrinsic_index = Some (ascii ''7-2''), block_num = Some 7,
          hash = Some (ascii ''0xabc''),
          module = None, call = None, success = None, fee = None, time = None\<rparr>"
        "ascii ''0xabc''" polkadot_cfg "[]" 0]
      explorerUrl_priority [of
        "\<lparr>extrinsic_index = Some (ascii ''7-2''), block_num = Some 7, hash = None,
          module = None, call = None, success = None, fee = None, time = None\<rparr>"
        "[]" polkadot_cfg "ascii ''7-2''" 0]
      explorerUrl_priority [of
        "\<lparr>extrinsic_index = None, block_num = Some 7, hash = None,
          module = None, call = None, success = None, fee = None, time = None\<rparr>"
        "[]" polkadot_cfg "[]" 7]
      explorerUrl_priority [of
        "\<lparr>extrinsic_index = None, block_num = None, hash = None,
          module = None, call = None, success = None, fee = None, time = None\<rparr>"
        "[]" polkadot_cfg "[]" 0]
    by (simp add: ne d) (simp add: ascii_def)
qed

text \<open>
  C8 as stated fails: a record whose hash is present but empty, with an extrinsic index,
  does not get the link built from its hash.
\<close>

theorem explorerUrl_empty_hash_counterexample:
  "explorerUrl polkadot_cfg
     \<lparr>extrinsic_index = Some (ascii ''7-2''), block_num = None, hash = Some [],
      module = None, call = None, success = None, fee = None, time = None\<rparr>
     = site polkadot_cfg @ ascii ''/extrinsic/7-2'' \<and>
   site polkadot_cfg @ ascii ''/extrinsic/7-2'' \<noteq> site polkadot_cfg @ ascii ''/extrinsic/'' @ []"
  by (simp add: explorerUrl_def ascii_def)

text \<open>
  C10. For a record whose hash and extrinsic index are the empty string and whose block
  number is 0, the link is the one of block 0: the two strings are tested for truthiness,
  the block number only for being there.
\<close>

theorem explorerUrl_falsy_fields:
  "explorerUrl c
     \<lparr>extrinsic_index = Some [], block_num = Some 0, hash = Some [],
      module = m, call = cl, success = su, fee = f, time = t\<rparr>
     = site c @ ascii ''/block/0''"
  by (simp add: explorerUrl_def ascii_def)

theorem explorerUrl_falsy_fields_witness:
  "explorerUrl kusama_cfg
     \<lparr>extrinsic_index = Some [], block_num = Some 0, hash = Some [],
      module = None, call = None, success = Some True, fee = None, time = None\<rparr>
     = ascii ''https://coretime-kusama.subscan.io/block/0''"
  using explorerUrl_falsy_fields [of kusama_cfg None None "Some True" None None]
  by (simp add: kusama_cfg_def ascii_def)

subsection \<open>History fetcher\<close>

lemma extract_items_list:
  "data_field d ''list'' = Some (JArr xs) \<Longrightarrow> extract_items d = JArr xs"
  by (simp add: extract_items_def data_field_def)

lemma extract_items_extrinsics:
  "\<not> isArray (data_field d ''list'') \<Longrightarrow> data_field d ''extrinsics'' = Some (JArr xs)
     \<Longrightarrow> extract_items d = JArr xs"
  by (simp add: extract_items_def data_field_def)

lemma extract_items_neither:
  "\<not> isArray (data_field d ''list'') \<Longrightarrow>
   data_field d ''extrinsics'' = None \<or> data_field d ''extrinsics'' = Some JNull
     \<Longrightarrow> extract_items d = JArr []"
  by (auto simp: extract_items_def data_field_def)

lemma items_success:
  "a \<noteq> [] \<Longrightarrow> fetch (history_request c k a) = Inr res \<Longrightarrow> ok res \<Longrightarrow> body_json res = Inr d
     \<Longrightarrow> items (fetch_effect True (Some a) c k fetch st) = extract_items d"
  by (simp add: fetch_effect_def fetch_routine_def try_body_def setItems_def setLoading_def
      emit_def Let_def)

lemma items_rejected:
  "a \<noteq> [] \<Longrightarrow> fetch (history_request c k a) = Inl e
     \<Longrightarrow> items (fetch_effect True (Some a) c k fetch st) = JArr []"
  by (simp add: fetch_effect_def fetch_routine_def try_body_def setItems_def setLoading_def
      emit_def Let_def)

lemma items_not_ok:
  "a \<noteq> [] \<Longrightarrow> fetch (history_request c k a) = Inr res \<Longrightarrow> \<not> ok res
     \<Longrightarrow> items (fetch_effect True (Some a) c k fetch st) = JArr []"
  by (simp add: fetch_effect_def fetch_routine_def try_body_def setItems_def setLoading_def
      emit_def Let_def split: sum.splits)

lemma items_bad_json:
  "a \<noteq> [] \<Longrightarrow> fetch (history_request c k a) = Inr res \<Longrightarrow> ok res \<Longrightarrow> body_json res = Inl e
     \<Longrightarrow> items (fetch_effect True (Some a) c k fetch st) = JArr []"
  by (simp add: fetch_effect_def fetch_routine_def try_body_def setItems_def setLoading_def
      emit_def Let_def)

lemma effect_no_address:
  "\<not> truthy addr \<Longrightarrow>
     fetch_effect True addr c k fetch st
       = st\<lparr>items := JArr [], loading := False,
            log := log st @ [SetItems (JArr []), SetLoading False]\<rparr>"
  by (cases addr) (simp_all add: fetch_effect_def setItems_def setLoading_def)

lemma try_body_log:
  "\<exists>evs. log (snd (try_body c k a fetch st)) = log st @ evs \<and> SetLoading False \<notin> set evs"
  by (simp add: try_body_def setItems_def emit_def Let_def split: sum.splits)

lemma try_body_loading: "loading (snd (try_body c k a fetch st)) = loading st"
  by (simp add: try_body_def setItems_def emit_def Let_def split: sum.splits)

lemma fetch_routine_log:
  "\<exists>evs. log (fetch_routine c k a fetch st) = log st @ evs @ [SetLoading False]
     \<and> SetLoading False \<notin> set evs"
proof -
  obtain thrown st1 where t: "try_body c k a fetch (setLoading True st) = (thrown, st1)"
    by (cases "try_body c k a fetch (setLoading True st)")
  from try_body_log [of c k a fetch "setLoading True st"] t
  obtain evs where evs: "log st1 = log st @ [SetLoading True] @ evs" "SetLoading False \<notin> set evs"
    by (auto simp: setLoading_def)
  show ?thesis
  proof (cases thrown)
    case None
    with t evs have "log (fetch_routine c k a fetch st)
        = log st @ (SetLoading True # evs) @ [SetLoading False]"
      by (simp add: fetch_routine_def setLoading_def)
    moreover from evs have "SetLoading False \<notin> set (SetLoading True # evs)" by simp
    ultimately show ?thesis by blast
  next
    case (Some e)
    with t evs have "log (fetch_routine c k a fetch st)
        = log st @ (SetLoading True # evs @ [ConsoleError, SetItems (JArr [])]) @ [SetLoading False]"
      by (simp add: fetch_routine_def setLoading_def setItems_def emit_def)
    moreover from evs
    have "SetLoading False \<notin> set (SetLoading True # evs @ [ConsoleError, SetItems (JArr [])])"
      by simp
    ultimately show ?thesis by blast
  qed
qed

lemma fetch_routine_loading: "loading (fetch_routine c k a fetch st) = False"
  by (simp add: fetch_routine_def setLoading_def Let_def split: prod.splits)

lemma count_list_absent: "x \<notin> set xs \<Longrightarrow> count_list xs x = 0"
  by (induction xs) auto


text \<open>
  C5, as the code has it. After a completed cycle the result list is the list of the
  response, whole and in its order, whatever its length: \<^verbatim>\<open>data.list\<close> when that is an
  array, else \<^verbatim>\<open>data.extrinsics\<close> when that is an array; it is empty when neither field
  is there, when the fetch fails (a rejected request, a status that is not a success, a
  body that is not JSON) and when there is no address.
\<close>

theorem items_last_fetch_wins:
  "(a \<noteq> [] \<and> fetch (history_request c k a) = Inr res \<and> ok res \<and> body_json res = Inr d \<and>
    data_field d ''list'' = Some (JArr xs)
      \<longrightarrow> items (fetch_effect True (Some a) c k fetch st) = JArr xs) \<and>
   (a \<noteq> [] \<and> fetch (history_request c k a) = Inr res \<and> ok res \<and> body_json res = Inr d \<and>
    \<not> isArray (data_field d ''list'') \<and> data_field d ''extrinsics'' = Some (JArr xs)
      \<longrightarrow> items (fetch_effect True (Some a) c k fetch st) = JArr xs) \<and>
   (a \<noteq> [] \<and> fetch (history_request c k a) = Inr res \<and> ok res \<and> body_json res = Inr d \<and>
    \<not> isArray (data_field d ''list'') \<and>
    (data_field d ''extrinsics'' = None \<or> data_field d ''extrinsics'' = Some JNull)
      \<longrightarrow> items (fetch_effect True (Some a) c k fetch st) = JArr []) \<and>
   (a \<noteq> [] \<and>
    (fetch (history_request c k a) = Inl e \<or>
     fetch (history_request c k a) = Inr res \<and> (\<not> ok res \<or> body_json res = Inl e))
      \<longrightarrow> items (fetch_effect True (Some a) c k fetch st) = JArr []) \<and>
   (\<not> truthy addr \<longrightarrow> items (fetch_effect True addr c k fetch st) = JArr [])"
proof -
  have "items (fetch_effect True (Some a) c k fetch st) = JArr []"
    if "a \<noteq> []" "fetch (history_request c k a) = Inr res" "\<not> ok res \<or> body_json res = Inl e"
  proof (cases "ok res")
    case True
    with that show ?thesis by (simp add: items_bad_json)
  next
    case False
    with that show ?thesis by (simp add: items_not_ok)
  qed
  then show ?thesis
    by (auto simp: items_success items_rejected extract_items_list extract_items_extrinsics
        extract_items_neither effect_no_address)
qed

theorem items_last_fetch_wins_witness:
  "items (fetch_effect True (Some (ascii ''5Grw'')) polkadot_cfg (ascii ''key'')
      (reply (ok_response (data_body ''list'' (JArr [JObj [], JNull]))))
      (fresh\<lparr>items := JArr [JNull]\<rparr>)) = JArr [JObj [], JNull] \<and>
   items (fetch_effect True (Some (ascii ''5Grw'')) polkadot_cfg (ascii ''key'')
      (reply (ok_response (data_body ''extrinsics'' (JArr [JObj []]))))
      (fresh\<lparr>items := JArr [JNull]\<rparr>)) = JArr [JObj []] \<and>
   items (fetch_effect True (Some (ascii ''5Grw'')) polkadot_cfg (ascii ''key'')
      (reply (ok_response (data_body ''count'' (JNum 0))))
      (fresh\<lparr>items := JArr [JNull]\<rparr>)) = JArr [] \<and>
   items (fetch_effect True (Some (ascii ''5Grw'')) polkadot_cfg (ascii ''key'')
      (reply error_response) (fresh\<lparr>items := JArr [JNull]\<rparr>)) = JArr [] \<and>
   items (fetch_effect True (Some (ascii ''5Grw'')) polkadot_cfg (ascii ''key'')
      unreachable (fresh\<lparr>items := JArr [JNull]\<rparr>)) = JArr [] \<and>
   items (fetch_effect True None polkadot_cfg (ascii ''key'')
      unreachable (fresh\<lparr>items := JArr [JNull]\<rparr>)) = JArr []"
proof -
  have ne: "ascii ''5Grw'' \<noteq> []"
    by (simp add: ascii_def)
  have f:
    "data_field (data_body ''list'' (JArr [JObj [], JNull])) ''list'' = Some (JArr [JObj [], JNull])"
    "\<not> isArray (data_field (data_body ''extrinsics'' (JArr [JObj []])) ''list'')"
    "data_field (data_body ''extrinsics'' (JArr [JObj []])) ''extrinsics'' = Some (JArr [JObj []])"
    "\<not> isArray (data_field (data_body ''count'' (JNum 0)) ''list'')"
    "data_field (data_body ''count'' (JNum 0)) ''extrinsics'' = None"
    by (simp_all add: data_field_def data_body_def ascii_def)
  have r: "ok (ok_response d)" "body_json (ok_response d) = Inr d" "\<not> ok error_response" for d
    by (simp_all add: ok_response_def error_response_def)
  show ?thesis
    using
      items_last_fetch_wins [of "ascii ''5Grw''" "reply (ok_response (data_body ''list'' (JArr [JObj [], JNull])))"
        polkadot_cfg "ascii ''key''" "ok_response (data_body ''list'' (JArr [JObj [], JNull]))"
        "data_body ''list'' (JArr [JObj [], JNull])" "[JObj [], JNull]"
        "fresh\<lparr>items := JArr [JNull]\<rparr>" "Error []" None]
      items_last_fetch_wins [of "ascii ''5Grw''" "reply (ok_response (data_body ''extrinsics'' (JArr [JObj []])))"
        polkadot_cfg "ascii ''key''" "ok_response (data_body ''extrinsics'' (JArr [JObj []]))"
        "data_body ''extrinsics'' (JArr [JObj []])" "[JObj []]"
        "fresh\<lparr>items := JArr [JNull]\<rparr>" "Error []" None]
      items_last_fetch_wins [of "ascii ''5Grw''" "reply (ok_response (data_body ''count'' (JNum 0)))"
        polkadot_cfg "ascii ''key''" "ok_response (data_body ''count'' (JNum 0))"
        "data_body ''count'' (JNum 0)" "[]"
        "fresh\<lparr>items := JArr [JNull]\<rparr>" "Error []" None]
      items_last_fetch_wins [of "ascii ''5Grw''" "reply error_response"
        polkadot_cfg "ascii ''key''" error_response JNull "[]"
        "fresh\<lparr>items := JArr [JNull]\<rparr>" "Error []" None]
      items_last_fetch_wins [of "ascii ''5Grw''" unreachable
        polkadot_cfg "ascii ''key''" error_response JNull "[]"
        "fresh\<lparr>items := JArr [JNull]\<rparr>" "Error (ascii ''Failed to fetch'')" None]
    by (simp add: ne f r reply_def unreachable_def)
qed

text \<open>
  C5 as stated fails: the request asks for ten rows, but a response that lists eleven
  records leaves eleven records in the result list.
\<close>

theorem items_eleven_counterexample:
  "items (fetch_effect True (Some (ascii ''5Grw'')) polkadot_cfg (ascii ''key'')
      (reply (ok_response (data_body ''list'' (JArr (replicate 11 (JObj []))))))
      fresh) = JArr (replicate 11 (JObj [])) \<and>
   10 < length (replicate 11 (JObj []))"
proof -
  have "ascii ''5Grw'' \<noteq> []"
    by (simp add: ascii_def)
  moreover have "data_field (data_body ''list'' (JArr (replicate 11 (JObj [])))) ''list''
      = Some (JArr (replicate 11 (JObj [])))"
    by (simp add: data_field_def data_body_def ascii_def)
  ultimately show ?thesis
    by (simp add: items_success extract_items_list reply_def ok_response_def)
qed

text \<open>
  C2 at a response whose \<^verbatim>\<open>data.extrinsics\<close> is a string and whose \<^verbatim>\<open>data.list\<close> is
  missing: neither field is an array, and the string is stored as the result list.
\<close>

theorem items_non_array_extrinsics:
  "items (fetch_effect True (Some (ascii ''5Grw'')) polkadot_cfg (ascii ''key'')
      (reply (ok_response (data_body ''extrinsics'' (JStr (ascii ''none'')))))
      fresh) = JStr (ascii ''none'')"
proof -
  have "ascii ''5Grw'' \<noteq> []"
    by (simp add: ascii_def)
  moreover have "extract_items (data_body ''extrinsics'' (JStr (ascii ''none''))) = JStr (ascii ''none'')"
    by (simp add: extract_items_def data_body_def ascii_def)
  ultimately show ?thesis
    by (simp add: items_success reply_def ok_response_def)
qed

text \<open>
  C6. When the panel is open and there is an address, the fetch routine sets the loading
  flag to false exactly once, as its last step, whatever the request comes to: a
  response with or without success status, or an error thrown by the request or by the
  reading of the body.
\<close>

theorem loading_reset_once:
  "is_open \<Longrightarrow> truthy addr \<Longrightarrow>
     count_list (log (fetch_effect is_open addr c k fetch st)) (SetLoading False)
       = count_list (log st) (SetLoading False) + 1 \<and>
     last (log (fetch_effect is_open addr c k fetch st)) = SetLoading False \<and>
     loading (fetch_effect is_open addr c k fetch st) = False"
proof -
  assume o: "is_open" and t: "truthy addr"
  then obtain a where a: "addr = Some a" "a \<noteq> []" by (cases addr) auto
  with o have eq: "fetch_effect is_open addr c k fetch st = fetch_routine c k a fetch st"
    by (simp add: fetch_effect_def)
  obtain evs where evs: "log (fetch_routine c k a fetch st) = log st @ evs @ [SetLoading False]"
    "SetLoading False \<notin> set evs"
    using fetch_routine_log by blast
  then show ?thesis
    by (simp add: eq fetch_routine_loading count_list_absent)
qed

theorem loading_reset_once_witness:
  "count_list (log (fetch_effect True (Some (ascii ''5Grw'')) polkadot_cfg (ascii ''key'')
      (reply (ok_response (data_body ''list'' (JArr [])))) fresh)) (SetLoading False) = 1 \<and>
   count_list (log (fetch_effect True (Some (ascii ''5Grw'')) polkadot_cfg (ascii ''key'')
      (reply error_response) fresh)) (SetLoading False) = 1 \<and>
   count_list (log (fetch_effect True (Some (ascii ''5Grw'')) polkadot_cfg (ascii ''key'')
      unreachable fresh)) (SetLoading False) = 1 \<and>
   \<not> loading (fetch_effect True (Some (ascii ''5Grw'')) polkadot_cfg (ascii ''key'')
      unreachable fresh)"
proof -
  have t: "truthy (Some (ascii ''5Grw''))"
    by (simp add: ascii_def)
  have z: "count_list (log fresh) (SetLoading False) = 0"
    by (simp add: fresh_def)
  show ?thesis
    using loading_reset_once [OF TrueI t, of polkadot_cfg "ascii ''key''"
        "reply (ok_response (data_body ''list'' (JArr [])))" fresh]
      loading_reset_once [OF TrueI t, of polkadot_cfg "ascii ''key''" "reply error_response" fresh]
      loading_reset_once [OF TrueI t, of polkadot_cfg "ascii ''key''" unreachable fresh]
    by (simp add: z)
qed

text \<open>
  C7. When the panel is open and there is no address (none, or the empty string), the
  effect clears the result list and sets the loading flag to false, and does nothing
  else: the log gains these two steps and no network call, whatever the network would
  answer.
\<close>

theorem no_address_idle:
  "is_open \<Longrightarrow> \<not> truthy addr \<Longrightarrow>
     fetch_effect is_open addr c k fetch st
       = st\<lparr>items := JArr [], loading := False,
            log := log st @ [SetItems (JArr []), SetLoading False]\<rparr> \<and>
     filter is_fetch (log (fetch_effect is_open addr c k fetch st)) = filter is_fetch (log st)"
  by (simp add: effect_no_address)

theorem no_address_idle_witness:
  "fetch_effect True None polkadot_cfg (ascii ''key'')
      (reply (ok_response (data_body ''list'' (JArr [JObj []]))))
      \<lparr>items = JArr [JObj []], loading = True, log = []\<rparr>
     = \<lparr>items = JArr [], loading = False, log = [SetItems (JArr []), SetLoading False]\<rparr> \<and>
   filter is_fetch (log (fetch_effect True (Some []) polkadot_cfg (ascii ''key'')
      (reply (ok_response (data_body ''list'' (JArr [JObj []]))))
      \<lparr>items = JArr [JObj []], loading = True, log = []\<rparr>)) = []"
proof -
  have f: "\<not> truthy None" "\<not> truthy (Some [])"
    by simp_all
  show ?thesis
    using no_address_idle [OF TrueI f(1), of polkadot_cfg "ascii ''key''"
        "reply (ok_response (data_body ''list'' (JArr [JObj []])))"
        "\<lparr>items = JArr [JObj []], loading = True, log = []\<rparr>"]
      no_address_idle [OF TrueI f(2), of polkadot_cfg "ascii ''key''"
        "reply (ok_response (data_body ''list'' (JArr [JObj []])))"
        "\<lparr>items = JArr [JObj []], loading = True, log = []\<rparr>"]
    by simp
qed

end
